theory Spec2Isabelle
  imports Main "HOL-Library.Word" "HOL-Library.Multiset"
begin

section \<open>The system-call boundary of userprog/syscall.c\<close>

text \<open>
  A shallow embedding of \<^verbatim>\<open>src/userprog/syscall.c\<close>: the trap entry point
  \<^verbatim>\<open>syscall_handler\<close>, the dispatch table \<^verbatim>\<open>syscall_vec\<close> and the
  thirteen handlers, over an explicit kernel state. The target is 32-bit x86: \<^verbatim>\<open>int\<close>,
  \<^verbatim>\<open>unsigned\<close> and pointers are 32-bit words whose arithmetic wraps, memory is
  byte addressed and little endian.
\<close>

subsection \<open>Data\<close>

type_synonym addr = "32 word"
type_synonym byte = "8 word"
type_synonym memory = "addr \<Rightarrow> byte"

text \<open>
  \<^verbatim>\<open>struct filedescriptor_elem\<close>. The two intrusive links \<^verbatim>\<open>elem\<close> and
  \<^verbatim>\<open>thread_elem\<close> are the record's membership in \<open>open_file_list\<close> and in its
  thread's \<open>all_files\<close>; \<open>fde_addr\<close> is the address \<^verbatim>\<open>malloc\<close> gave the record,
  its identity. A record is never written after \<^verbatim>\<open>sys_open\<close> has linked it.
\<close>

record filedescriptor_elem =
  fde_addr :: addr
  filedesc :: "32 word"
  fde_file :: addr

text \<open>The functions stored in \<^verbatim>\<open>syscall_vec\<close>, each cast to \<^verbatim>\<open>handler\<close>.\<close>

datatype handler =
  H_exit | H_halt | H_create | H_open | H_close | H_read | H_write
  | H_exec | H_wait | H_filesize | H_seek | H_tell | H_remove

text \<open>
  The calls that leave the source unit for the filesystem, the allocator and the process
  subsystem, with the argument words they are given. The kernel state keeps them in
  order, as a test double would.
\<close>

datatype call =
  Filesys_create addr "32 word"
  | Filesys_open addr
  | Filesys_remove addr
  | File_read addr addr "32 word"
  | File_write addr addr "32 word"
  | File_close addr
  | File_length addr
  | File_tell addr
  | File_seek addr "32 word"
  | Malloc
  | Free addr
  | Process_execute addr
  | Process_wait "32 word"

text \<open>
  The enumerators of \<^verbatim>\<open>syscall-nr.h\<close> that the source names. The header is not part
  of the source unit, so the numbering is a parameter of \<open>syscall_init\<close> and
  \<open>syscall_handler\<close>.
\<close>

record syscall_nr =
  SYS_HALT :: int
  SYS_EXIT :: int
  SYS_EXEC :: int
  SYS_WAIT :: int
  SYS_CREATE :: int
  SYS_REMOVE :: int
  SYS_OPEN :: int
  SYS_FILESIZE :: int
  SYS_READ :: int
  SYS_WRITE :: int
  SYS_SEEK :: int
  SYS_TELL :: int
  SYS_CLOSE :: int
  SYS_INUMBER :: int

text \<open>
  The collaborators, as parameters: the boundary of user space and what each external
  function answers. An answer may depend on everything the collaborators were asked
  before (the \<open>call list\<close>) and on memory, so any deterministic filesystem, allocator and
  process subsystem is an instance. \<open>input_getc_r k\<close> is the \<open>k\<close>-th byte the
  console delivers.
\<close>

record collab =
  PHYS_BASE :: addr
  input_getc_r :: "nat \<Rightarrow> byte"
  filesys_create_r :: "call list \<Rightarrow> memory \<Rightarrow> addr \<Rightarrow> 32 word \<Rightarrow> bool"
  filesys_open_r :: "call list \<Rightarrow> memory \<Rightarrow> addr \<Rightarrow> addr"
  filesys_remove_r :: "call list \<Rightarrow> memory \<Rightarrow> addr \<Rightarrow> bool"
  file_read_r :: "call list \<Rightarrow> addr \<Rightarrow> 32 word \<Rightarrow> byte list"
  file_write_r :: "call list \<Rightarrow> memory \<Rightarrow> addr \<Rightarrow> addr \<Rightarrow> 32 word \<Rightarrow> 32 word"
  file_length_r :: "call list \<Rightarrow> addr \<Rightarrow> 32 word"
  file_tell_r :: "call list \<Rightarrow> addr \<Rightarrow> 32 word"
  malloc_r :: "call list \<Rightarrow> addr"
  process_execute_r :: "call list \<Rightarrow> memory \<Rightarrow> addr \<Rightarrow> 32 word"
  process_wait_r :: "call list \<Rightarrow> 32 word \<Rightarrow> 32 word"

text \<open>
  The kernel state the source unit reads and writes: user and kernel memory, the statics
  \<^verbatim>\<open>syscall_vec\<close>, \<^verbatim>\<open>file_lock\<close> (its holder), \<^verbatim>\<open>open_file_list\<close> and
  \<^verbatim>\<open>fid\<close> (the static local of \<^verbatim>\<open>sys_open\<close>), the fields \<^verbatim>\<open>all_files\<close> and
  \<^verbatim>\<open>return_status\<close> of every \<^verbatim>\<open>struct thread\<close>, the running thread, the console
  and the collaborator calls made so far.
\<close>

record kstate =
  mem :: memory
  syscall_vec :: "handler option list"
  file_lock :: "addr option"
  open_file_list :: "filedescriptor_elem list"
  all_files :: "addr \<Rightarrow> filedescriptor_elem list"
  return_status :: "addr \<Rightarrow> 32 word"
  fid :: "32 word"
  cur :: addr
  console_in :: nat
  console_out :: "byte list"
  calls :: "call list"

text \<open>
  How a handler, or the trap entry point, leaves: it returns a value (\<open>Ret\<close>; for the
  entry point, the value stored in the frame's \<^verbatim>\<open>eax\<close>), it returns a
  \<^verbatim>\<open>bool\<close> (\<open>Ret_bool\<close>: called through the \<^verbatim>\<open>int\<close>-returning \<^verbatim>\<open>handler\<close>
  type, only the low byte of the result is that value, 1 or 0, and the other three bytes
  are indeterminate), it returns from a \<^verbatim>\<open>void\<close> function (the word the caller reads
  as the result is indeterminate), or it does not return: the thread reached
  \<^verbatim>\<open>thread_exit\<close>, the machine was powered off, \<^verbatim>\<open>lock_acquire\<close> found the lock
  taken, the entry point called the null function pointer, or it indexed
  \<^verbatim>\<open>syscall_vec\<close> outside its 128 entries.
\<close>

datatype ctl =
  Ret "32 word" | Ret_bool bool | Ret_void | Thread_exit | Power_off | Lock_wait | Call_null
  | Out_of_bounds

subsection \<open>Collaborators\<close>

text \<open>
  Modelled from the spec: \<^verbatim>\<open>is_user_vaddr\<close> of threads/vaddr.h is not in the source
  unit; the spec describes an address-space-boundary check, an address below the start of
  the kernel-reserved region.
\<close>

definition is_user_vaddr :: "collab \<Rightarrow> addr \<Rightarrow> bool" where
  "is_user_vaddr c vaddr = (vaddr < PHYS_BASE c)"

text \<open>
  Modelled from the spec: the standard streams of lib/stdio.h, which is not in the source
  unit; identifiers 0 and 1 are reserved for standard input and standard output, and
  identifier 1 is standard output.
\<close>

definition STDIN_FILENO :: "32 word" where
  "STDIN_FILENO = 0"

definition STDOUT_FILENO :: "32 word" where
  "STDOUT_FILENO = 1"

text \<open>A 32-bit load, as \<^verbatim>\<open>*stk_pos\<close> on the little-endian target.\<close>

definition load32 :: "memory \<Rightarrow> addr \<Rightarrow> 32 word" where
  "load32 m a =
     word_of_nat (unat (m a) + 256 * unat (m (a + 1)) + 65536 * unat (m (a + 2))
       + 16777216 * unat (m (a + 3)))"

fun store_bytes :: "memory \<Rightarrow> addr \<Rightarrow> byte list \<Rightarrow> memory" where
  "store_bytes m a [] = m"
| "store_bytes m a (b # bs) = store_bytes (m(a := b)) (a + 1) bs"

definition load_bytes :: "memory \<Rightarrow> addr \<Rightarrow> nat \<Rightarrow> byte list" where
  "load_bytes m a n = map (\<lambda>k. m (a + word_of_nat k)) [0..<n]"

text \<open>
  Modelled from the spec: threads/synch.c is not in the source unit. The lock is a single
  mutual-exclusion lock, not reentrant. One run of a handler is sequential, so a
  \<^verbatim>\<open>lock_acquire\<close> that finds the lock taken does not proceed (\<open>None\<close>).
\<close>

definition lock_acquire :: "kstate \<Rightarrow> kstate option" where
  "lock_acquire s =
     (if file_lock s = None then Some (s\<lparr>file_lock := Some (cur s)\<rparr>) else None)"

definition lock_release :: "kstate \<Rightarrow> kstate" where
  "lock_release s = s\<lparr>file_lock := None\<rparr>"

definition lock_held_by_current_thread :: "kstate \<Rightarrow> bool" where
  "lock_held_by_current_thread s = (file_lock s = Some (cur s))"

text \<open>
  Modelled from the spec: the console device, byte-wise input read and bulk output write
  (devices/input.c and lib/kernel/console.c are not in the source unit).
\<close>

definition input_getc :: "collab \<Rightarrow> kstate \<Rightarrow> byte \<times> kstate" where
  "input_getc c s = (input_getc_r c (console_in s), s\<lparr>console_in := Suc (console_in s)\<rparr>)"

definition putbuf :: "addr \<Rightarrow> 32 word \<Rightarrow> kstate \<Rightarrow> kstate" where
  "putbuf buffer n s =
     s\<lparr>console_out := console_out s @ load_bytes (mem s) buffer (unat n)\<rparr>"

text \<open>
  Modelled from the spec: the filesystem collaborator (filesys/filesys.c and
  filesys/file.c are not in the source unit), with the contracts of the spec's downward
  boundary. Every call is recorded; \<^verbatim>\<open>file_read\<close> stores at most \<open>sz\<close> bytes at
  \<open>buffer\<close> and returns how many.
\<close>

definition filesys_create :: "collab \<Rightarrow> addr \<Rightarrow> 32 word \<Rightarrow> kstate \<Rightarrow> bool \<times> kstate" where
  "filesys_create c name initial_size s =
     (filesys_create_r c (calls s) (mem s) name initial_size,
      s\<lparr>calls := calls s @ [Filesys_create name initial_size]\<rparr>)"

definition filesys_open :: "collab \<Rightarrow> addr \<Rightarrow> kstate \<Rightarrow> addr \<times> kstate" where
  "filesys_open c name s =
     (filesys_open_r c (calls s) (mem s) name, s\<lparr>calls := calls s @ [Filesys_open name]\<rparr>)"

definition filesys_remove :: "collab \<Rightarrow> addr \<Rightarrow> kstate \<Rightarrow> bool \<times> kstate" where
  "filesys_remove c name s =
     (filesys_remove_r c (calls s) (mem s) name, s\<lparr>calls := calls s @ [Filesys_remove name]\<rparr>)"

definition file_read :: "collab \<Rightarrow> addr \<Rightarrow> addr \<Rightarrow> 32 word \<Rightarrow> kstate \<Rightarrow> 32 word \<times> kstate" where
  "file_read c fl buffer sz s =
     (let data = take (unat sz) (file_read_r c (calls s) fl sz)
      in (word_of_nat (length data),
          s\<lparr>mem := store_bytes (mem s) buffer data,
            calls := calls s @ [File_read fl buffer sz]\<rparr>))"

definition file_write :: "collab \<Rightarrow> addr \<Rightarrow> addr \<Rightarrow> 32 word \<Rightarrow> kstate \<Rightarrow> 32 word \<times> kstate" where
  "file_write c fl buffer sz s =
     (file_write_r c (calls s) (mem s) fl buffer sz,
      s\<lparr>calls := calls s @ [File_write fl buffer sz]\<rparr>)"

definition file_close :: "addr \<Rightarrow> kstate \<Rightarrow> kstate" where
  "file_close fl s = s\<lparr>calls := calls s @ [File_close fl]\<rparr>"

definition file_length :: "collab \<Rightarrow> addr \<Rightarrow> kstate \<Rightarrow> 32 word \<times> kstate" where
  "file_length c fl s = (file_length_r c (calls s) fl, s\<lparr>calls := calls s @ [File_length fl]\<rparr>)"

definition file_tell :: "collab \<Rightarrow> addr \<Rightarrow> kstate \<Rightarrow> 32 word \<times> kstate" where
  "file_tell c fl s = (file_tell_r c (calls s) fl, s\<lparr>calls := calls s @ [File_tell fl]\<rparr>)"

definition file_seek :: "addr \<Rightarrow> 32 word \<Rightarrow> kstate \<Rightarrow> kstate" where
  "file_seek fl pos s = s\<lparr>calls := calls s @ [File_seek fl pos]\<rparr>"

text \<open>
  Modelled from the spec: the allocator (threads/malloc.c is not in the source unit). A
  null answer is out of memory.
\<close>

definition malloc :: "collab \<Rightarrow> kstate \<Rightarrow> addr \<times> kstate" where
  "malloc c s = (malloc_r c (calls s), s\<lparr>calls := calls s @ [Malloc]\<rparr>)"

definition free :: "addr \<Rightarrow> kstate \<Rightarrow> kstate" where
  "free p s = s\<lparr>calls := calls s @ [Free p]\<rparr>"

text \<open>
  Modelled from the spec: the process subsystem (userprog/process.c is not in the source
  unit): \<^verbatim>\<open>execute(cmdline) -> pid|-1\<close> and \<^verbatim>\<open>wait(pid) -> exit_status|-1\<close>.
\<close>

definition process_execute :: "collab \<Rightarrow> addr \<Rightarrow> kstate \<Rightarrow> 32 word \<times> kstate" where
  "process_execute c cmd s =
     (process_execute_r c (calls s) (mem s) cmd, s\<lparr>calls := calls s @ [Process_execute cmd]\<rparr>)"

definition process_wait :: "collab \<Rightarrow> 32 word \<Rightarrow> kstate \<Rightarrow> 32 word \<times> kstate" where
  "process_wait c tid s =
     (process_wait_r c (calls s) tid, s\<lparr>calls := calls s @ [Process_wait tid]\<rparr>)"

text \<open>
  \<^verbatim>\<open>list_remove\<close> of lib/kernel/list.c unlinks one element from the list it is in:
  here, the record \<open>e\<close> from a list that holds it.
\<close>

definition list_remove :: "filedescriptor_elem \<Rightarrow> filedescriptor_elem list \<Rightarrow> filedescriptor_elem list" where
  "list_remove e xs = remove1 e xs"

text \<open>
  Modelled from the spec: \<^verbatim>\<open>thread_exit\<close> (threads/thread.c) terminates the process
  and \<^verbatim>\<open>shutdown_power_off\<close> (threads/init.c) powers the machine off; neither returns.
\<close>

definition thread_exit :: "kstate \<Rightarrow> ctl \<times> kstate" where
  "thread_exit s = (Thread_exit, s)"

definition shutdown_power_off :: "kstate \<Rightarrow> ctl \<times> kstate" where
  "shutdown_power_off s = (Power_off, s)"

subsection \<open>The handle registry\<close>

text \<open>
  \<^verbatim>\<open>find_file_by_fde\<close> walks the global \<^verbatim>\<open>open_file_list\<close> and returns the file of the
  first record with the descriptor, or null. \<^verbatim>\<open>find_fde_by_file\<close> walks the running
  thread's \<^verbatim>\<open>all_files\<close> and returns the record.
\<close>

definition find_file_by_fde :: "32 word \<Rightarrow> kstate \<Rightarrow> addr" where
  "find_file_by_fde file_desc s =
     (case find (\<lambda>fd. filedesc fd = file_desc) (open_file_list s) of
        None \<Rightarrow> 0
      | Some fd \<Rightarrow> fde_file fd)"

definition find_fde_by_file :: "32 word \<Rightarrow> kstate \<Rightarrow> filedescriptor_elem option" where
  "find_fde_by_file file_desc s = find (\<lambda>fd. filedesc fd = file_desc) (all_files s (cur s))"

definition sys_close :: "32 word \<Rightarrow> kstate \<Rightarrow> kstate" where
  "sys_close file_desc s =
     (case find_fde_by_file file_desc s of
        None \<Rightarrow> s
      | Some fde \<Rightarrow>
          (let s1 = file_close (fde_file fde) s;
               s2 = s1\<lparr>open_file_list := list_remove fde (open_file_list s1)\<rparr>;
               s3 = s2\<lparr>all_files := (all_files s2)(cur s2 := list_remove fde (all_files s2 (cur s2)))\<rparr>
           in free (fde_addr fde) s3))"

text \<open>
  The loop of \<^verbatim>\<open>sys_exit\<close>: while the running thread's \<^verbatim>\<open>all_files\<close> is not empty,
  close the descriptor of its first record.
\<close>

function sys_exit_loop :: "kstate \<Rightarrow> kstate" where
  "sys_exit_loop s =
     (case all_files s (cur s) of
        [] \<Rightarrow> s
      | element # _ \<Rightarrow> sys_exit_loop (sys_close (filedesc element) s))"
  by pat_completeness auto
termination
  by (relation "measure (\<lambda>s. length (all_files s (cur s)))")
    (auto simp: sys_close_def find_fde_by_file_def file_close_def free_def list_remove_def Let_def)

definition sys_exit :: "32 word \<Rightarrow> kstate \<Rightarrow> ctl \<times> kstate" where
  "sys_exit status s =
     (let s1 = (if lock_held_by_current_thread s then lock_release s else s);
          s2 = sys_exit_loop s1;
          s3 = s2\<lparr>return_status := (return_status s2)(cur s2 := status)\<rparr>
      in thread_exit s3)"

subsection \<open>The handlers\<close>

text \<open>
  The loop of \<^verbatim>\<open>sys_read\<close> on standard input. Its counter \<open>i\<close> is a
  \<^verbatim>\<open>uint16_t\<close>, compared with the 32-bit \<open>sz\<close> after zero extension; \<open>None\<close> is a
  loop that never ends.
\<close>

partial_function (option) sys_read_loop :: "collab \<Rightarrow> 16 word \<Rightarrow> addr \<Rightarrow> 32 word \<Rightarrow> kstate \<Rightarrow> kstate option" where
  "sys_read_loop c i buffer sz s =
     (if (ucast i :: 32 word) < sz
      then (let (b, s1) = input_getc c s
            in sys_read_loop c (i + 1) buffer sz (s1\<lparr>mem := (mem s1)(buffer + ucast i := b)\<rparr>))
      else Some s)"

definition sys_read :: "collab \<Rightarrow> 32 word \<Rightarrow> addr \<Rightarrow> 32 word \<Rightarrow> kstate \<Rightarrow> (ctl \<times> kstate) option" where
  "sys_read c file_desc buffer sz s =
     (case lock_acquire s of
        None \<Rightarrow> Some (Lock_wait, s)
      | Some s1 \<Rightarrow>
          if file_desc = STDIN_FILENO then
            (case sys_read_loop c 0 buffer sz s1 of
               None \<Rightarrow> None
             | Some s2 \<Rightarrow> Some (Ret sz, lock_release s2))
          else if file_desc = STDOUT_FILENO then Some (Ret (- 1), lock_release s1)
          else if \<not> is_user_vaddr c buffer \<or> \<not> is_user_vaddr c (buffer + sz) then
            Some (sys_exit (- 1) (lock_release s1))
          else
            (let fl = find_file_by_fde file_desc s1
             in if fl \<noteq> 0 then
                  (let (return_val, s2) = file_read c fl buffer sz s1
                   in Some (Ret return_val, lock_release s2))
                else Some (Ret (- 1), lock_release s1)))"

text \<open>
  \<^verbatim>\<open>sys_write\<close>. In the last branch the source sets \<^verbatim>\<open>return_val = -1\<close> when
  \<open>f\<close> is null and then, in either case, assigns it the result of
  \<^verbatim>\<open>file_write (f, buffer, length)\<close>.
\<close>

definition sys_write :: "collab \<Rightarrow> 32 word \<Rightarrow> addr \<Rightarrow> 32 word \<Rightarrow> kstate \<Rightarrow> ctl \<times> kstate" where
  "sys_write c file_desc buffer len s =
     (let return_val = - 1 in
      case lock_acquire s of
        None \<Rightarrow> (Lock_wait, s)
      | Some s1 \<Rightarrow>
          if file_desc = STDOUT_FILENO then (Ret return_val, lock_release (putbuf buffer len s1))
          else if file_desc = STDIN_FILENO then (Ret (- 1), lock_release s1)
          else if \<not> is_user_vaddr c buffer \<or> \<not> is_user_vaddr c (buffer + len) then
            sys_exit (- 1) (lock_release s1)
          else
            (let f = find_file_by_fde file_desc s1;
                 return_val = (if f = 0 then - 1 else return_val);
                 (return_val, s2) = file_write c f buffer len s1
             in (Ret return_val, lock_release s2)))"

definition sys_create :: "collab \<Rightarrow> addr \<Rightarrow> 32 word \<Rightarrow> kstate \<Rightarrow> ctl \<times> kstate" where
  "sys_create c file initial_size s =
     (if file = 0 then sys_exit (- 1) s
      else case lock_acquire s of
        None \<Rightarrow> (Lock_wait, s)
      | Some s1 \<Rightarrow>
          (let (return_value, s2) = filesys_create c file initial_size s1
           in (Ret_bool return_value, lock_release s2)))"

text \<open>
  \<^verbatim>\<open>sys_open\<close>. \<^verbatim>\<open>fde->filedesc = fid++\<close> stores the counter and advances it, a
  32-bit \<^verbatim>\<open>int\<close>; the record goes to the back of both lists.
\<close>

definition sys_open :: "collab \<Rightarrow> addr \<Rightarrow> kstate \<Rightarrow> ctl \<times> kstate" where
  "sys_open c file s =
     (if file = 0 then (Ret (- 1), s)
      else if \<not> is_user_vaddr c file then sys_exit (- 1) s
      else
        (let (f, s1) = filesys_open c file s
         in if f = 0 then (Ret (- 1), s1)
            else
              (let (fde, s2) = malloc c s1
               in if fde = 0 then (Ret (- 1), file_close f s2)
                  else
                    (let e = \<lparr>fde_addr = fde, filedesc = fid s2, fde_file = f\<rparr>;
                         s3 = s2\<lparr>fid := fid s2 + 1\<rparr>;
                         s4 = s3\<lparr>open_file_list := open_file_list s3 @ [e]\<rparr>;
                         s5 = s4\<lparr>all_files := (all_files s4)(cur s4 := all_files s4 (cur s4) @ [e])\<rparr>
                     in (Ret (filedesc e), s5)))))"

definition sys_halt :: "kstate \<Rightarrow> ctl \<times> kstate" where
  "sys_halt s = shutdown_power_off s"

definition sys_exec :: "collab \<Rightarrow> addr \<Rightarrow> kstate \<Rightarrow> ctl \<times> kstate" where
  "sys_exec c cmd s =
     (if cmd = 0 \<or> \<not> is_user_vaddr c cmd then (Ret (- 1), s)
      else case lock_acquire s of
        None \<Rightarrow> (Lock_wait, s)
      | Some s1 \<Rightarrow>
          (let (ret, s2) = process_execute c cmd s1
           in (Ret ret, lock_release s2)))"

definition sys_wait :: "collab \<Rightarrow> 32 word \<Rightarrow> kstate \<Rightarrow> ctl \<times> kstate" where
  "sys_wait c tid s = (let (r, s1) = process_wait c tid s in (Ret r, s1))"

definition sys_filesize :: "collab \<Rightarrow> 32 word \<Rightarrow> kstate \<Rightarrow> ctl \<times> kstate" where
  "sys_filesize c file_desc s =
     (let file_size = find_file_by_fde file_desc s
      in if file_size = 0 then (Ret (- 1), s)
         else (let (r, s1) = file_length c file_size s in (Ret r, s1)))"

definition sys_tell :: "collab \<Rightarrow> 32 word \<Rightarrow> kstate \<Rightarrow> ctl \<times> kstate" where
  "sys_tell c file_desc s =
     (let f = find_file_by_fde file_desc s
      in if f = 0 then (Ret (- 1), s)
         else (let (status_val, s1) = file_tell c f s in (Ret status_val, s1)))"

definition sys_seek :: "collab \<Rightarrow> 32 word \<Rightarrow> 32 word \<Rightarrow> kstate \<Rightarrow> ctl \<times> kstate" where
  "sys_seek c file_desc pos s =
     (let fl = find_file_by_fde file_desc s
      in if fl = 0 then sys_exit (- 1) s
         else (Ret_void, file_seek fl pos s))"

definition sys_remove :: "collab \<Rightarrow> addr \<Rightarrow> kstate \<Rightarrow> ctl \<times> kstate" where
  "sys_remove c file s =
     (if file = 0 then (Ret_bool False, s)
      else if \<not> is_user_vaddr c file then sys_exit (- 1) s
      else case lock_acquire s of
        None \<Rightarrow> (Lock_wait, s)
      | Some s1 \<Rightarrow>
          (let (return_value, s2) = filesys_remove c file s1
           in (Ret_bool return_value, lock_release s2)))"

subsection \<open>The dispatch table and the trap entry point\<close>

text \<open>
  A call through a \<^verbatim>\<open>handler\<close> pointer passes three words; each function takes the
  ones its own signature names. What the caller then reads as an \<^verbatim>\<open>int\<close> is the
  value of a function that returns \<^verbatim>\<open>int\<close> or \<^verbatim>\<open>unsigned\<close> (\<open>Ret\<close>), has
  only its low byte set by a function that returns \<^verbatim>\<open>bool\<close> (\<open>Ret_bool\<close>:
  \<^verbatim>\<open>sys_create\<close>, \<^verbatim>\<open>sys_remove\<close>) and is not set at all by one that returns
  \<^verbatim>\<open>void\<close> (\<open>Ret_void\<close>: \<^verbatim>\<open>sys_close\<close>, \<^verbatim>\<open>sys_seek\<close>).
\<close>

definition call_handler :: "collab \<Rightarrow> handler \<Rightarrow> 32 word \<Rightarrow> 32 word \<Rightarrow> 32 word \<Rightarrow> kstate \<Rightarrow> (ctl \<times> kstate) option" where
  "call_handler c hndlr a1 a2 a3 s =
     (case hndlr of
        H_exit \<Rightarrow> Some (sys_exit a1 s)
      | H_halt \<Rightarrow> Some (sys_halt s)
      | H_create \<Rightarrow> Some (sys_create c a1 a2 s)
      | H_open \<Rightarrow> Some (sys_open c a1 s)
      | H_close \<Rightarrow> Some (Ret_void, sys_close a1 s)
      | H_read \<Rightarrow> sys_read c a1 a2 a3 s
      | H_write \<Rightarrow> Some (sys_write c a1 a2 a3 s)
      | H_exec \<Rightarrow> Some (sys_exec c a1 s)
      | H_wait \<Rightarrow> Some (sys_wait c a1 s)
      | H_filesize \<Rightarrow> Some (sys_filesize c a1 s)
      | H_seek \<Rightarrow> Some (sys_seek c a1 a2 s)
      | H_tell \<Rightarrow> Some (sys_tell c a1 s)
      | H_remove \<Rightarrow> Some (sys_remove c a1 s))"

text \<open>
  \<^verbatim>\<open>syscall_vec[n] = h\<close> on the array of 128 entries. A store outside the array is
  undefined in C and left out: the table is unchanged.
\<close>

definition vec_store :: "int \<Rightarrow> handler \<Rightarrow> kstate \<Rightarrow> kstate" where
  "vec_store n h s =
     (if 0 \<le> n \<and> n < 128 then s\<lparr>syscall_vec := (syscall_vec s)[nat n := Some h]\<rparr> else s)"

definition syscall_init :: "syscall_nr \<Rightarrow> kstate \<Rightarrow> kstate" where
  "syscall_init nr s =
     (let s = vec_store (SYS_EXIT nr) H_exit s;
          s = vec_store (SYS_HALT nr) H_halt s;
          s = vec_store (SYS_CREATE nr) H_create s;
          s = vec_store (SYS_OPEN nr) H_open s;
          s = vec_store (SYS_CLOSE nr) H_close s;
          s = vec_store (SYS_READ nr) H_read s;
          s = vec_store (SYS_WRITE nr) H_write s;
          s = vec_store (SYS_EXEC nr) H_exec s;
          s = vec_store (SYS_WAIT nr) H_wait s;
          s = vec_store (SYS_FILESIZE nr) H_filesize s;
          s = vec_store (SYS_SEEK nr) H_seek s;
          s = vec_store (SYS_TELL nr) H_tell s;
          s = vec_store (SYS_REMOVE nr) H_remove s
      in s\<lparr>open_file_list := [], file_lock := None\<rparr>)"

text \<open>
  \<^verbatim>\<open>syscall_handler\<close>, given the frame's \<^verbatim>\<open>esp\<close>. \<open>Ret v\<close> is
  \<^verbatim>\<open>f->eax = v\<close> followed by the return; with \<open>Ret_bool b\<close> the word stored in
  \<^verbatim>\<open>eax\<close> has the low byte \<open>b\<close> and three indeterminate bytes, with \<open>Ret_void\<close>
  it is indeterminate.
\<close>

definition syscall_handler :: "collab \<Rightarrow> syscall_nr \<Rightarrow> addr \<Rightarrow> kstate \<Rightarrow> (ctl \<times> kstate) option" where
  "syscall_handler c nr esp s =
     (let stk_pos = esp
      in if \<not> is_user_vaddr c stk_pos then Some (sys_exit (- 1) s)
         else if sint (load32 (mem s) stk_pos) < SYS_HALT nr
                 \<or> sint (load32 (mem s) stk_pos) > SYS_INUMBER nr then Some (sys_exit (- 1) s)
         else if sint (load32 (mem s) stk_pos) < 0 \<or> 128 \<le> sint (load32 (mem s) stk_pos)
           then Some (Out_of_bounds, s)
         else
           (let hndlr = syscall_vec s ! nat (sint (load32 (mem s) stk_pos))
            in if \<not> (is_user_vaddr c (stk_pos + 4) \<and> is_user_vaddr c (stk_pos + 8)
                      \<and> is_user_vaddr c (stk_pos + 12)) then Some (sys_exit (- 1) s)
               else case hndlr of
                 None \<Rightarrow> Some (Call_null, s)
               | Some h \<Rightarrow>
                   call_handler c h (load32 (mem s) (stk_pos + 4)) (load32 (mem s) (stk_pos + 8))
                     (load32 (mem s) (stk_pos + 12)) s))"

text \<open>
  The kernel before \<^verbatim>\<open>syscall_init\<close>: statics zero-initialised, \<^verbatim>\<open>fid\<close> at its
  initialiser 2, no thread owning a handle.
\<close>

definition boot :: "memory \<Rightarrow> addr \<Rightarrow> kstate" where
  "boot m t =
     \<lparr>mem = m, syscall_vec = replicate 128 None, file_lock = None, open_file_list = [],
      all_files = (\<lambda>_. []), return_status = (\<lambda>_. 0), fid = 2, cur = t,
      console_in = 0, console_out = [], calls = []\<rparr>"

subsection \<open>Runs of system calls\<close>





text \<open>
  The state of the handle registry that \<open>sys_open\<close> maintains while its counter has not
  overflowed: the counter is at least 2, and every identifier in the global list and in
  every thread's list is at least 2 and below the counter, as signed 32-bit integers.
\<close>

definition ids_below_fid :: "kstate \<Rightarrow> bool" where
  "ids_below_fid s =
     (2 \<le> sint (fid s) \<and>
      (\<forall>e \<in> set (open_file_list s). 2 \<le> sint (filedesc e) \<and> sint (filedesc e) < sint (fid s)) \<and>
      (\<forall>t. \<forall>e \<in> set (all_files s t). 2 \<le> sint (filedesc e) \<and> sint (filedesc e) < sint (fid s)))"



subsection \<open>Test doubles\<close>

text \<open>
  Concrete collaborators for the examples: user space ends at \<open>0xC0000000\<close>, the console
  delivers \<open>A\<close>, \<open>B\<close>, ..., a file opens unless its name is the empty string, every
  allocation succeeds, a read yields three bytes and a write takes all it is given.
\<close>

definition stub :: collab where
  "stub =
     \<lparr>PHYS_BASE = 0xC0000000,
      input_getc_r = (\<lambda>k. word_of_nat k + 65),
      filesys_create_r = (\<lambda>_ _ _ _. True),
      filesys_open_r =
        (\<lambda>log m name. if m name = 0 then 0 else 0xC0100000 + 16 * word_of_nat (length log)),
      filesys_remove_r = (\<lambda>_ _ _. True),
      file_read_r = (\<lambda>_ _ _. [1, 2, 3]),
      file_write_r = (\<lambda>_ _ _ _ sz. sz),
      file_length_r = (\<lambda>_ _. 7),
      file_tell_r = (\<lambda>_ _. 0),
      malloc_r = (\<lambda>log. 0xC0200000 + 32 * word_of_nat (length log)),
      process_execute_r = (\<lambda>_ _ _. 5),
      process_wait_r = (\<lambda>_ _. 0)\<rparr>"

text \<open>The same collaborators with an allocator that is out of memory.\<close>

definition stub_nomem :: collab where
  "stub_nomem = stub\<lparr>malloc_r := (\<lambda>_. 0)\<rparr>"

text \<open>
  A user memory holding the string \<open>hi\<close> at \<open>0x1000\<close> and zeros elsewhere (so the
  empty string at \<open>0x2000\<close>), and one holding the word \<open>n\<close> at \<open>0x1000\<close>, a stack
  whose top word is a syscall number.
\<close>

definition hi_mem :: memory where
  "hi_mem = (\<lambda>a. if a = 0x1000 then 104 else if a = 0x1001 then 105 else 0)"

definition trap_mem :: "byte \<Rightarrow> memory" where
  "trap_mem n = (\<lambda>a. if a = 0x1000 then n else 0)"

text \<open>
  The numbering of the stock \<^verbatim>\<open>lib/syscall-nr.h\<close>, where the enumerators run from
  \<^verbatim>\<open>SYS_HALT\<close> = 0 to \<^verbatim>\<open>SYS_INUMBER\<close> = 19.
\<close>

definition stock_nr :: syscall_nr where
  "stock_nr =
     \<lparr>SYS_HALT = 0, SYS_EXIT = 1, SYS_EXEC = 2, SYS_WAIT = 3, SYS_CREATE = 4,
      SYS_REMOVE = 5, SYS_OPEN = 6, SYS_FILESIZE = 7, SYS_READ = 8, SYS_WRITE = 9,
      SYS_SEEK = 10, SYS_TELL = 11, SYS_CLOSE = 12, SYS_INUMBER = 19\<rparr>"

text \<open>
  Two states the kernel reaches from boot: thread 1 has opened the file \<open>hi\<close> twice;
  thread 2 has opened it once and thread 1 is running.
\<close>

definition two_files :: kstate where
  "two_files = snd (sys_open stub 0x1000 (snd (sys_open stub 0x1000 (boot hi_mem 1))))"

definition other_owner :: kstate where
  "other_owner = (snd (sys_open stub 0x1000 (boot hi_mem 2)))\<lparr>cur := 1\<rparr>"






section \<open>Properties\<close>

subsection \<open>Auxiliary facts\<close>

lemmas collab_defs = is_user_vaddr_def STDIN_FILENO_def STDOUT_FILENO_def lock_acquire_def
  lock_release_def lock_held_by_current_thread_def input_getc_def putbuf_def filesys_create_def
  filesys_open_def filesys_remove_def file_read_def file_write_def file_close_def file_length_def
  file_tell_def file_seek_def malloc_def free_def process_execute_def process_wait_def
  thread_exit_def shutdown_power_off_def list_remove_def

declare sys_exit_loop.simps [simp del]

lemma two_files_eq:
  "two_files =
     \<lparr>mem = hi_mem, syscall_vec = replicate 128 None, file_lock = None,
      open_file_list =
        [\<lparr>fde_addr = 0xC0200020, filedesc = 2, fde_file = 0xC0100000\<rparr>,
         \<lparr>fde_addr = 0xC0200060, filedesc = 3, fde_file = 0xC0100020\<rparr>],
      all_files = (\<lambda>_. [])(1 :=
        [\<lparr>fde_addr = 0xC0200020, filedesc = 2, fde_file = 0xC0100000\<rparr>,
         \<lparr>fde_addr = 0xC0200060, filedesc = 3, fde_file = 0xC0100020\<rparr>]),
      return_status = (\<lambda>_. 0), fid = 4, cur = 1, console_in = 0, console_out = [],
      calls = [Filesys_open 0x1000, Malloc, Filesys_open 0x1000, Malloc]\<rparr>"
  by (simp add: two_files_def sys_open_def boot_def stub_def hi_mem_def collab_defs Let_def)

lemma other_owner_eq:
  "other_owner =
     \<lparr>mem = hi_mem, syscall_vec = replicate 128 None, file_lock = None,
      open_file_list = [\<lparr>fde_addr = 0xC0200020, filedesc = 2, fde_file = 0xC0100000\<rparr>],
      all_files = (\<lambda>_. [])(2 := [\<lparr>fde_addr = 0xC0200020, filedesc = 2, fde_file = 0xC0100000\<rparr>]),
      return_status = (\<lambda>_. 0), fid = 3, cur = 1, console_in = 0, console_out = [],
      calls = [Filesys_open 0x1000, Malloc]\<rparr>"
  by (simp add: other_owner_def sys_open_def boot_def stub_def hi_mem_def collab_defs Let_def)

paragraph \<open>The loop of \<open>sys_exit\<close>\<close>

lemma sys_close_head:
  "all_files s (cur s) = e # es \<Longrightarrow>
   sys_close (filedesc e) s =
     s\<lparr>open_file_list := remove1 e (open_file_list s),
       all_files := (all_files s)(cur s := es),
       calls := calls s @ [File_close (fde_file e), Free (fde_addr e)]\<rparr>"
  by (simp add: sys_close_def find_fde_by_file_def collab_defs Let_def)

lemma sys_exit_loop_eq:
  "all_files s (cur s) = es \<Longrightarrow>
   sys_exit_loop s =
     s\<lparr>open_file_list := foldl (\<lambda>xs e. remove1 e xs) (open_file_list s) es,
       all_files := (all_files s)(cur s := []),
       calls := calls s @ concat (map (\<lambda>e. [File_close (fde_file e), Free (fde_addr e)]) es)\<rparr>"
proof (induction es arbitrary: s)
  case Nil
  then have "(all_files s)(cur s := []) = all_files s"
    by (auto simp: fun_eq_iff)
  with Nil show ?case by (simp add: sys_exit_loop.simps [of s])
next
  case (Cons e es)
  let ?s1 = "sys_close (filedesc e) s"
  have c: "?s1 = s\<lparr>open_file_list := remove1 e (open_file_list s),
       all_files := (all_files s)(cur s := es),
       calls := calls s @ [File_close (fde_file e), Free (fde_addr e)]\<rparr>"
    using Cons.prems by (rule sys_close_head)
  have "all_files ?s1 (cur ?s1) = es" by (simp add: c)
  from Cons.IH [OF this]
  have ih: "sys_exit_loop ?s1 =
     ?s1\<lparr>open_file_list := foldl (\<lambda>xs e. remove1 e xs) (open_file_list ?s1) es,
       all_files := (all_files ?s1)(cur ?s1 := []),
       calls := calls ?s1 @ concat (map (\<lambda>e. [File_close (fde_file e), Free (fde_addr e)]) es)\<rparr>" .
  have "sys_exit_loop s = sys_exit_loop ?s1"
    using Cons.prems by (simp add: sys_exit_loop.simps [of s])
  also note ih
  also have
    "?s1\<lparr>open_file_list := foldl (\<lambda>xs e. remove1 e xs) (open_file_list ?s1) es,
       all_files := (all_files ?s1)(cur ?s1 := []),
       calls := calls ?s1 @ concat (map (\<lambda>e. [File_close (fde_file e), Free (fde_addr e)]) es)\<rparr>
     = s\<lparr>open_file_list := foldl (\<lambda>xs e. remove1 e xs) (open_file_list s) (e # es),
       all_files := (all_files s)(cur s := []),
       calls := calls s @ concat (map (\<lambda>e. [File_close (fde_file e), Free (fde_addr e)]) (e # es))\<rparr>"
    by (simp add: c)
  finally show ?case .
qed

lemma mset_foldl_remove1:
  "mset (foldl (\<lambda>xs e. remove1 e xs) xs es) = mset xs - mset es"
  by (induction es arbitrary: xs) (simp_all add: diff_diff_add)

lemma sys_exit_unfold:
  "sys_exit status s =
     (Thread_exit,
      (sys_exit_loop (if lock_held_by_current_thread s then lock_release s else s))
        \<lparr>return_status :=
           (return_status (sys_exit_loop (if lock_held_by_current_thread s then lock_release s else s)))
             (cur (sys_exit_loop (if lock_held_by_current_thread s then lock_release s else s)) := status)\<rparr>)"
  by (simp add: sys_exit_def Let_def thread_exit_def)

lemma sys_exit_ctl: "fst (sys_exit status s) = Thread_exit"
  by (simp add: sys_exit_unfold)

lemma sys_exit_status: "return_status (snd (sys_exit status s)) (cur s) = status"
proof -
  define s1 where "s1 = (if lock_held_by_current_thread s then lock_release s else s)"
  have "cur s1 = cur s" by (simp add: s1_def collab_defs)
  then show ?thesis
    unfolding sys_exit_unfold s1_def [symmetric]
    by (simp add: sys_exit_loop_eq [OF refl, of s1])
qed

paragraph \<open>The loop of \<open>sys_read\<close>\<close>

lemma unat_16_bound: "unat (i::16 word) < 65536"
  using unsigned_less [of i, where 'a = nat] by simp

lemma unat_ucast_16_32: "unat (ucast (i::16 word) :: 32 word) = unat i"
proof -
  have "unat i < 2 ^ 32"
    using unat_16_bound [of i] by simp
  then show ?thesis
    by (simp add: unsigned_ucast_eq take_bit_nat_eq_self)
qed

lemma ucast_less_iff: "(ucast (i::16 word) :: 32 word) < sz \<longleftrightarrow> unat i < unat sz"
  by (simp add: word_less_nat_alt unat_ucast_16_32)

lemma unat_succ16: "unat (i::16 word) < 65535 \<Longrightarrow> unat (i + 1) = Suc (unat i)"
  using unat_add_lem [of i 1] by simp

text \<open>
  Whenever the loop returns, \<open>sz\<close> is below \<open>2 ^ 16\<close>: a 16-bit counter is always
  below a larger \<open>sz\<close>, so the loop goes round again.
\<close>

lemma sys_read_loop_never_returns:
  assumes "sys_read_loop c i buffer sz s = Some y"
  shows "unat sz < 65536"
proof (rule sys_read_loop.raw_induct [where P = "\<lambda>_ _ _ sz _ _. unat sz < 65536"])
  show "sys_read_loop c i buffer sz s = Some y" by (fact assms)
next
  fix f c buffer s y and i :: "16 word" and sz :: "32 word"
  assume ih: "\<And>c i buffer sz s y. f c i buffer sz s = Some y \<Longrightarrow> unat sz < 65536"
    and eq: "(if (ucast i :: 32 word) < sz
          then let (b, s1) = input_getc c s
               in f c (i + 1) buffer sz (s1\<lparr>mem := (mem s1)(buffer + ucast i := b)\<rparr>)
          else Some s) = Some y"
  show "unat sz < 65536"
  proof (cases "unat i < unat sz")
    case True
    with eq have "\<exists>i' s'. f c i' buffer sz s' = Some y"
      by (auto simp: ucast_less_iff input_getc_def)
    then show ?thesis
      by (blast dest: ih)
  next
    case False
    then show ?thesis
      using unat_16_bound [of i] by simp
  qed
qed

lemma sys_read_loop_large: "65536 \<le> unat sz \<Longrightarrow> sys_read_loop c i buffer sz s = None"
  using sys_read_loop_never_returns [of c i buffer sz s]
  by (cases "sys_read_loop c i buffer sz s") auto

lemma upt_head: "[k..<Suc (k + n)] = k # [Suc k..<Suc (k + n)]"
  by (simp add: upt_conv_Cons del: upt_Suc)

lemma sys_read_loop_small:
  "unat sz < 65536 \<Longrightarrow> unat i \<le> unat sz \<Longrightarrow> n = unat sz - unat i \<Longrightarrow>
   sys_read_loop c i buffer sz s =
     Some (s\<lparr>mem := store_bytes (mem s) (buffer + ucast i)
                 (map (input_getc_r c) [console_in s..<console_in s + n]),
             console_in := console_in s + n\<rparr>)"
proof (induction n arbitrary: i s)
  case 0
  then have "\<not> unat i < unat sz" by simp
  then show ?case
    by (subst sys_read_loop.simps) (simp add: ucast_less_iff)
next
  case (Suc n)
  then have lt: "unat i < unat sz" by simp
  then have i1: "unat (i + 1) = Suc (unat i)"
    using Suc.prems(1) by (intro unat_succ16) simp
  let ?s1 = "s\<lparr>console_in := Suc (console_in s),
               mem := (mem s)(buffer + ucast i := input_getc_r c (console_in s))\<rparr>"
  have ih: "sys_read_loop c (i + 1) buffer sz ?s1 =
     Some (?s1\<lparr>mem := store_bytes (mem ?s1) (buffer + ucast (i + 1))
                 (map (input_getc_r c) [console_in ?s1..<console_in ?s1 + n]),
             console_in := console_in ?s1 + n\<rparr>)"
    using Suc.prems lt i1 by (intro Suc.IH) simp_all
  have u: "(ucast (i + 1) :: 32 word) = ucast i + 1"
    by (rule word_unat_eq_iff [THEN iffD2])
       (use lt Suc.prems(1) i1 in \<open>simp add: unat_ucast_16_32 unat_word_ariths\<close>)
  have "sys_read_loop c i buffer sz s = sys_read_loop c (i + 1) buffer sz ?s1"
    using lt by (subst sys_read_loop.simps) (simp add: ucast_less_iff input_getc_def)
  also note ih
  also have "?s1\<lparr>mem := store_bytes (mem ?s1) (buffer + ucast (i + 1))
                 (map (input_getc_r c) [console_in ?s1..<console_in ?s1 + n]),
             console_in := console_in ?s1 + n\<rparr> =
     s\<lparr>mem := store_bytes (mem s) (buffer + ucast i)
                 (map (input_getc_r c) [console_in s..<console_in s + Suc n]),
             console_in := console_in s + Suc n\<rparr>"
    by (simp add: u upt_head add.assoc del: upt_Suc)
  finally show ?case .
qed

lemma sys_read_stdin_small:
  "file_lock s = None \<Longrightarrow> unat sz < 65536 \<Longrightarrow>
   sys_read c STDIN_FILENO buffer sz s =
     Some (Ret sz,
       s\<lparr>mem := store_bytes (mem s) buffer
                 (map (input_getc_r c) [console_in s..<console_in s + unat sz]),
         console_in := console_in s + unat sz\<rparr>)"
  using sys_read_loop_small [of sz 0 "unat sz" c buffer "s\<lparr>file_lock := Some (cur s)\<rparr>"]
  by (simp add: sys_read_def collab_defs)

lemma sys_read_stdin_large:
  "file_lock s = None \<Longrightarrow> 65536 \<le> unat sz \<Longrightarrow> sys_read c STDIN_FILENO buffer sz s = None"
  by (simp add: sys_read_def collab_defs sys_read_loop_large)

lemma sys_read_stdout:
  "file_lock s = None \<Longrightarrow> sys_read c STDOUT_FILENO buffer sz s = Some (Ret (- 1), s)"
  by (simp add: sys_read_def collab_defs)

paragraph \<open>Handle lookup\<close>

lemma find_file_by_fde_absent:
  "file_desc \<notin> filedesc ` set (open_file_list s) \<Longrightarrow> find_file_by_fde file_desc s = 0"
proof -
  assume "file_desc \<notin> filedesc ` set (open_file_list s)"
  then have "find (\<lambda>fd. filedesc fd = file_desc) (open_file_list s) = None"
    by (auto simp: find_None_iff)
  then show ?thesis by (simp add: find_file_by_fde_def)
qed

lemma find_first:
  "x \<notin> f ` set xs \<Longrightarrow> f e = x \<Longrightarrow> find (\<lambda>y. f y = x) (xs @ e # ys) = Some e"
  by (induction xs) auto

lemma find_file_by_fde_first:
  "open_file_list s = xs @ e # ys \<Longrightarrow> file_desc \<notin> filedesc ` set xs \<Longrightarrow> filedesc e = file_desc \<Longrightarrow>
   find_file_by_fde file_desc s = fde_file e"
  by (simp add: find_file_by_fde_def find_first)

lemma remove1_first: "e \<notin> set xs \<Longrightarrow> remove1 e (xs @ e # ys) = xs @ ys"
  by (induction xs) auto

lemma sys_close_absent:
  "file_desc \<notin> filedesc ` set (all_files s (cur s)) \<Longrightarrow> sys_close file_desc s = s"
proof -
  assume "file_desc \<notin> filedesc ` set (all_files s (cur s))"
  then have "find (\<lambda>fd. filedesc fd = file_desc) (all_files s (cur s)) = None"
    by (auto simp: find_None_iff)
  then show ?thesis by (simp add: sys_close_def find_fde_by_file_def)
qed

lemma sys_close_first:
  assumes "all_files s (cur s) = xs @ e # ys" and "file_desc \<notin> filedesc ` set xs"
    and "filedesc e = file_desc"
  shows "sys_close file_desc s =
     s\<lparr>open_file_list := remove1 e (open_file_list s),
       all_files := (all_files s)(cur s := xs @ ys),
       calls := calls s @ [File_close (fde_file e), Free (fde_addr e)]\<rparr>"
proof -
  have f: "find_fde_by_file file_desc s = Some e"
    using assms by (simp add: find_fde_by_file_def find_first)
  have "e \<notin> set xs"
    using assms(2,3) by auto
  then have "remove1 e (all_files s (cur s)) = xs @ ys"
    by (simp add: assms(1) remove1_first)
  then show ?thesis
    by (simp add: sys_close_def f collab_defs Let_def)
qed

paragraph \<open>Paths that end the process\<close>

lemma unlocked_idem: "file_lock s = None \<Longrightarrow> s\<lparr>file_lock := None\<rparr> = s"
  by (cases s) simp

lemma call_handler_exit_path:
  assumes "call_handler c h a1 a2 a3 s = Some (Thread_exit, s')"
  shows "\<exists>status. sys_exit status s = (Thread_exit, s')"
proof (cases h)
  case H_read
  with assms show ?thesis
    by (auto simp: call_handler_def sys_read_def collab_defs Let_def unlocked_idem
        split: option.splits if_splits prod.splits)
next
  case H_write
  with assms show ?thesis
    by (auto simp: call_handler_def sys_write_def collab_defs Let_def unlocked_idem
        split: option.splits if_splits prod.splits)
qed (use assms in \<open>auto simp: call_handler_def sys_create_def sys_open_def
        sys_halt_def sys_exec_def sys_wait_def sys_filesize_def sys_tell_def sys_seek_def
        sys_remove_def collab_defs Let_def
        split: option.splits if_splits prod.splits\<close>)

lemma syscall_handler_exit_path:
  assumes "syscall_handler c nr esp s = Some (Thread_exit, s')"
  shows "\<exists>status. sys_exit status s = (Thread_exit, s')"
  using assms
  by (auto simp: syscall_handler_def Let_def split: if_splits option.splits
      intro: call_handler_exit_path)

paragraph \<open>The dispatch table\<close>

lemma vec_store_fields [simp]:
  "mem (vec_store k h s) = mem s"
  "length (syscall_vec (vec_store k h s)) = length (syscall_vec s)"
  "fid (vec_store k h s) = fid s"
  "all_files (vec_store k h s) = all_files s"
  "cur (vec_store k h s) = cur s"
  "calls (vec_store k h s) = calls s"
  by (simp_all add: vec_store_def)

lemma vec_store_nth:
  "length (syscall_vec s) = 128 \<Longrightarrow> 0 \<le> n \<Longrightarrow> n < 128 \<Longrightarrow>
   syscall_vec (vec_store k h s) ! nat n = (if k = n then Some h else syscall_vec s ! nat n)"
  by (auto simp: vec_store_def nth_list_update)

lemma syscall_init_fields [simp]:
  "mem (syscall_init nr s) = mem s"
  "fid (syscall_init nr s) = fid s"
  "all_files (syscall_init nr s) = all_files s"
  "open_file_list (syscall_init nr s) = []"
  "file_lock (syscall_init nr s) = None"
  "cur (syscall_init nr s) = cur s"
  "calls (syscall_init nr s) = calls s"
  by (simp_all add: syscall_init_def Let_def)

text \<open>The table after \<^verbatim>\<open>syscall_init\<close>; where two numbers coincide the later store wins.\<close>

lemma syscall_init_table:
  assumes "length (syscall_vec s) = 128" "0 \<le> n" "n < 128"
  shows "syscall_vec (syscall_init nr s) ! nat n =
     (if n = SYS_REMOVE nr then Some H_remove
      else if n = SYS_TELL nr then Some H_tell
      else if n = SYS_SEEK nr then Some H_seek
      else if n = SYS_FILESIZE nr then Some H_filesize
      else if n = SYS_WAIT nr then Some H_wait
      else if n = SYS_EXEC nr then Some H_exec
      else if n = SYS_WRITE nr then Some H_write
      else if n = SYS_READ nr then Some H_read
      else if n = SYS_CLOSE nr then Some H_close
      else if n = SYS_OPEN nr then Some H_open
      else if n = SYS_CREATE nr then Some H_create
      else if n = SYS_HALT nr then Some H_halt
      else if n = SYS_EXIT nr then Some H_exit
      else syscall_vec s ! nat n)"
  using assms by (simp add: syscall_init_def Let_def vec_store_nth)

paragraph \<open>The registry along a run\<close>
























lemma syscall_init_ids: "ids_below_fid (syscall_init nr (boot m t))"
  by (simp add: ids_below_fid_def) (simp add: boot_def)


paragraph \<open>Rounds of open and close\<close>








subsection \<open>The range check and the dispatch table\<close>

text \<open>
  Claim C1 says that the dispatch table holds a handler for every syscall number that
  passes the range check of the trap entry point, so that a number without a handler is
  never dispatched, and that a number outside the range ends the process with status -1.
  The second part holds: with a valid stack pointer, a number below \<^verbatim>\<open>SYS_HALT\<close> or
  above \<^verbatim>\<open>SYS_INUMBER\<close> leads to \<open>sys_exit (- 1)\<close>. The first does not. After
  \<^verbatim>\<open>syscall_init\<close> the table holds a handler exactly for the thirteen registered
  numbers, \<^verbatim>\<open>SYS_INUMBER\<close> not among them, while the check accepts every number from
  \<^verbatim>\<open>SYS_HALT\<close> to \<^verbatim>\<open>SYS_INUMBER\<close>. For any numbering, a number in that range and
  in the table's bounds that is none of the thirteen passes the check, and with valid
  argument slots the entry point calls the null pointer the table holds for it. With the
  stock numbering these are the numbers 13 to 19.
\<close>

theorem syscall_handler_range_check:
  assumes "syscall_vec s = syscall_vec (syscall_init nr (boot m t))"
    and "is_user_vaddr c esp"
    and "sint (load32 (mem s) esp) = n"
  shows
   "(n < SYS_HALT nr \<or> SYS_INUMBER nr < n \<longrightarrow>
       syscall_handler c nr esp s = Some (sys_exit (- 1) s) \<and>
       fst (sys_exit (- 1) s) = Thread_exit \<and>
       return_status (snd (sys_exit (- 1) s)) (cur s) = - 1) \<and>
    (0 \<le> n \<and> n < 128 \<longrightarrow>
       (syscall_vec s ! nat n \<noteq> None) =
       (n \<in> {SYS_EXIT nr, SYS_HALT nr, SYS_CREATE nr, SYS_OPEN nr, SYS_CLOSE nr, SYS_READ nr,
          SYS_WRITE nr, SYS_EXEC nr, SYS_WAIT nr, SYS_FILESIZE nr, SYS_SEEK nr, SYS_TELL nr,
          SYS_REMOVE nr})) \<and>
    (SYS_HALT nr \<le> n \<and> n \<le> SYS_INUMBER nr \<and> 0 \<le> n \<and> n < 128 \<and>
     n \<notin> {SYS_EXIT nr, SYS_HALT nr, SYS_CREATE nr, SYS_OPEN nr, SYS_CLOSE nr, SYS_READ nr,
        SYS_WRITE nr, SYS_EXEC nr, SYS_WAIT nr, SYS_FILESIZE nr, SYS_SEEK nr, SYS_TELL nr,
        SYS_REMOVE nr} \<and>
     is_user_vaddr c (esp + 4) \<and> is_user_vaddr c (esp + 8) \<and> is_user_vaddr c (esp + 12) \<longrightarrow>
       syscall_handler c nr esp s = Some (Call_null, s))"
proof -
  have len: "length (syscall_vec (boot m t)) = 128"
    by (simp add: boot_def)
  have none: "0 \<le> n \<Longrightarrow> n < 128 \<Longrightarrow> syscall_vec (boot m t) ! nat n = None"
    by (simp add: boot_def)
  have tab: "0 \<le> n \<Longrightarrow> n < 128 \<Longrightarrow>
      (syscall_vec s ! nat n \<noteq> None) =
       (n \<in> {SYS_EXIT nr, SYS_HALT nr, SYS_CREATE nr, SYS_OPEN nr, SYS_CLOSE nr, SYS_READ nr,
          SYS_WRITE nr, SYS_EXEC nr, SYS_WAIT nr, SYS_FILESIZE nr, SYS_SEEK nr, SYS_TELL nr,
          SYS_REMOVE nr})"
    using len none by (auto simp: assms(1) syscall_init_table)
  have out: "n < SYS_HALT nr \<or> SYS_INUMBER nr < n \<Longrightarrow>
      syscall_handler c nr esp s = Some (sys_exit (- 1) s)"
    using assms(2,3) by (auto simp: syscall_handler_def Let_def)
  have null: "SYS_HALT nr \<le> n \<Longrightarrow> n \<le> SYS_INUMBER nr \<Longrightarrow> 0 \<le> n \<Longrightarrow> n < 128 \<Longrightarrow>
      syscall_vec s ! nat n = None \<Longrightarrow>
      is_user_vaddr c (esp + 4) \<and> is_user_vaddr c (esp + 8) \<and> is_user_vaddr c (esp + 12) \<Longrightarrow>
      syscall_handler c nr esp s = Some (Call_null, s)"
    using assms(2,3) by (simp add: syscall_handler_def Let_def)
  show ?thesis
    using tab out null by (simp add: sys_exit_ctl sys_exit_status) blast
qed

theorem syscall_handler_range_check_witness:
  "is_user_vaddr stub 0x1000 \<and> is_user_vaddr stub (0x1000 + 4) \<and>
   is_user_vaddr stub (0x1000 + 8) \<and> is_user_vaddr stub (0x1000 + 12) \<and>
   sint (load32 (trap_mem 19) 0x1000) = SYS_INUMBER stock_nr \<and>
   syscall_vec (syscall_init stock_nr (boot (trap_mem 19) 1)) ! 19 = None \<and>
   map_option fst (syscall_handler stub stock_nr 0x1000 (syscall_init stock_nr (boot (trap_mem 19) 1)))
     = Some Call_null \<and>
   sint (load32 (trap_mem 13) 0x1000) = 13 \<and>
   map_option fst (syscall_handler stub stock_nr 0x1000 (syscall_init stock_nr (boot (trap_mem 13) 1)))
     = Some Call_null \<and>
   sint (load32 (trap_mem 20) 0x1000) = 20 \<and>
   map_option fst (syscall_handler stub stock_nr 0x1000 (syscall_init stock_nr (boot (trap_mem 20) 1)))
     = Some Thread_exit \<and>
   syscall_vec (syscall_init stock_nr (boot (trap_mem 12) 1)) ! 12 = Some H_close"
  using syscall_handler_range_check [of "syscall_init stock_nr (boot (trap_mem 19) 1)" stock_nr
      "trap_mem 19" 1 stub "0x1000" 19]
    syscall_handler_range_check [of "syscall_init stock_nr (boot (trap_mem 13) 1)" stock_nr
      "trap_mem 13" 1 stub "0x1000" 13]
    syscall_handler_range_check [of "syscall_init stock_nr (boot (trap_mem 20) 1)" stock_nr
      "trap_mem 20" 1 stub "0x1000" 20]
    syscall_init_table [of "boot (trap_mem 12) 1" 12 stock_nr]
  by (simp add: stock_nr_def stub_def is_user_vaddr_def load32_def trap_mem_def boot_def)

subsection \<open>Write to an unresolved descriptor\<close>

text \<open>
  Claim C2 says that \<^verbatim>\<open>write(id, buf, length)\<close> on an identifier other than standard
  input and output that resolves to no handle returns -1 and never calls the
  filesystem's write. The code does otherwise: with the lock free, a valid buffer and a
  descriptor that \<open>find_file_by_fde\<close> does not resolve, \<open>sys_write\<close> calls
  \<^verbatim>\<open>file_write\<close> with a null file and returns whatever that call answers.
\<close>

theorem sys_write_unresolved_calls_file_write:
  "file_lock s = None \<Longrightarrow> file_desc \<noteq> STDOUT_FILENO \<Longrightarrow> file_desc \<noteq> STDIN_FILENO \<Longrightarrow>
   is_user_vaddr c buffer \<Longrightarrow> is_user_vaddr c (buffer + len) \<Longrightarrow>
   find_file_by_fde file_desc s = 0 \<Longrightarrow>
   sys_write c file_desc buffer len s =
     (Ret (file_write_r c (calls s) (mem s) 0 buffer len),
      s\<lparr>calls := calls s @ [File_write 0 buffer len]\<rparr>)"
  by (simp add: sys_write_def collab_defs find_file_by_fde_def Let_def)

theorem sys_write_unresolved_witness:
  "file_lock (boot hi_mem 1) = None \<and> (5::32 word) \<noteq> STDOUT_FILENO \<and> 5 \<noteq> STDIN_FILENO \<and>
   is_user_vaddr stub 0x1000 \<and> is_user_vaddr stub (0x1000 + 2) \<and>
   find_file_by_fde 5 (boot hi_mem 1) = 0 \<and>
   fst (sys_write stub 5 0x1000 2 (boot hi_mem 1)) = Ret 2 \<and>
   calls (snd (sys_write stub 5 0x1000 2 (boot hi_mem 1))) = [File_write 0 0x1000 2]"
  using sys_write_unresolved_calls_file_write [of "boot hi_mem 1" 5 stub "0x1000" 2]
  by (simp add: boot_def stub_def collab_defs find_file_by_fde_def)

subsection \<open>Validation of the console buffers\<close>

text \<open>
  Claim C3 says that every pointer a handler dereferences is validated first, the buffer
  of a read from standard input and of a write to standard output included, and that the
  syscall is failed when the address is invalid. The code does otherwise on both console
  paths: for a buffer that is not a user address, \<open>sys_read\<close> on standard input
  stores the console byte at that address and returns 1, and \<open>sys_write\<close> on standard
  output hands the bytes at that address to the console; neither ends the process.
\<close>

theorem console_buffers_not_validated:
  "file_lock s = None \<Longrightarrow> \<not> is_user_vaddr c buffer \<Longrightarrow>
   sys_read c STDIN_FILENO buffer 1 s =
     Some (Ret 1,
       s\<lparr>mem := (mem s)(buffer := input_getc_r c (console_in s)),
         console_in := Suc (console_in s)\<rparr>) \<and>
   sys_write c STDOUT_FILENO buffer len s =
     (Ret (- 1), s\<lparr>console_out := console_out s @ load_bytes (mem s) buffer (unat len)\<rparr>)"
  using sys_read_stdin_small [of s 1 c buffer]
  by (simp add: sys_write_def collab_defs)

theorem console_buffers_not_validated_witness:
  "file_lock (boot hi_mem 1) = None \<and> \<not> is_user_vaddr stub 0xC0000000 \<and>
   map_option fst (sys_read stub STDIN_FILENO 0xC0000000 1 (boot hi_mem 1)) = Some (Ret 1) \<and>
   map_option (\<lambda>r. mem (snd r) 0xC0000000) (sys_read stub STDIN_FILENO 0xC0000000 1 (boot hi_mem 1))
     = Some 65 \<and>
   fst (sys_write stub STDOUT_FILENO 0xC0000000 2 (boot hi_mem 1)) = Ret (- 1) \<and>
   console_out (snd (sys_write stub STDOUT_FILENO 0xC0000000 2 (boot hi_mem 1))) = [0, 0]"
  using console_buffers_not_validated [of "boot hi_mem 1" stub "0xC0000000" 2]
  by (simp add: boot_def hi_mem_def stub_def is_user_vaddr_def load_bytes_def upt_conv_Cons)

subsection \<open>Scope of handle resolution\<close>

text \<open>
  Claim C4 says that a process cannot reach a file another process opened: read and
  write on such an identifier return -1, and read, write, seek, tell and filesize resolve
  within the caller's own ownership set. It fails: in \<open>other_owner\<close> thread 1 owns
  nothing, thread 2 owns identifier 2, and a read of identifier 2 by thread 1 calls
  \<^verbatim>\<open>file_read\<close> on thread 2's file and returns 3.
\<close>

theorem foreign_handle_counterexample:
  "all_files other_owner (cur other_owner) = [] \<and>
   map filedesc (all_files other_owner 2) = [2] \<and>
   map fde_file (all_files other_owner 2) = [0xC0100000] \<and>
   map_option fst (sys_read stub 2 0x3000 3 other_owner) = Some (Ret 3) \<and>
   map_option (\<lambda>r. calls (snd r)) (sys_read stub 2 0x3000 3 other_owner) =
     Some [Filesys_open 0x1000, Malloc, File_read 0xC0100000 0x3000 3]"
  by (simp add: other_owner_eq sys_read_def stub_def collab_defs find_file_by_fde_def Let_def)

text \<open>
  Claim C4 as amended: read, write, seek, tell and filesize resolve an identifier in the
  global list of open handles, whoever the caller is and whatever any thread owns; only
  close resolves it in the caller's own list. For an identifier that no record of the
  global list carries, the lookup is null, tell and filesize return -1, seek ends the
  process, and read (lock free, buffer valid) returns -1 and leaves the state as it was.
  For an identifier that the global list carries, the lookup is the file of the first
  record that carries it, also when another thread opened it, and each of the five
  operates on that file. Close on an identifier that no record of the caller's own list
  carries has no effect, whoever else owns it; otherwise it closes the file of the first
  record of the caller's list that carries the identifier, unlinks that record from both
  lists and frees it.
\<close>

theorem handle_resolution_global:
  "find_file_by_fde file_desc (s\<lparr>cur := t, all_files := af\<rparr>) = find_file_by_fde file_desc s \<and>
   (file_desc \<notin> filedesc ` set (open_file_list s) \<longrightarrow>
      find_file_by_fde file_desc s = 0 \<and>
      sys_tell c file_desc s = (Ret (- 1), s) \<and>
      sys_filesize c file_desc s = (Ret (- 1), s) \<and>
      sys_seek c file_desc pos s = sys_exit (- 1) s \<and>
      (file_lock s = None \<and> file_desc \<noteq> STDIN_FILENO \<and> file_desc \<noteq> STDOUT_FILENO
        \<and> is_user_vaddr c buffer \<and> is_user_vaddr c (buffer + sz) \<longrightarrow>
       sys_read c file_desc buffer sz s = Some (Ret (- 1), s))) \<and>
   (open_file_list s = xs @ e # ys \<and> file_desc \<notin> filedesc ` set xs \<and> filedesc e = file_desc \<longrightarrow>
      find_file_by_fde file_desc s = fde_file e \<and>
      (fde_file e \<noteq> 0 \<longrightarrow>
         sys_tell c file_desc s =
           (Ret (file_tell_r c (calls s) (fde_file e)), s\<lparr>calls := calls s @ [File_tell (fde_file e)]\<rparr>) \<and>
         sys_filesize c file_desc s =
           (Ret (file_length_r c (calls s) (fde_file e)),
            s\<lparr>calls := calls s @ [File_length (fde_file e)]\<rparr>) \<and>
         sys_seek c file_desc pos s =
           (Ret_void, s\<lparr>calls := calls s @ [File_seek (fde_file e) pos]\<rparr>) \<and>
         (file_lock s = None \<and> file_desc \<noteq> STDIN_FILENO \<and> file_desc \<noteq> STDOUT_FILENO
           \<and> is_user_vaddr c buffer \<and> is_user_vaddr c (buffer + sz) \<longrightarrow>
          sys_read c file_desc buffer sz s =
            Some (Ret (fst (file_read c (fde_file e) buffer sz s)),
                  snd (file_read c (fde_file e) buffer sz s)) \<and>
          sys_write c file_desc buffer sz s =
            (Ret (fst (file_write c (fde_file e) buffer sz s)),
             snd (file_write c (fde_file e) buffer sz s))))) \<and>
   (file_desc \<notin> filedesc ` set (all_files s (cur s)) \<longrightarrow> sys_close file_desc s = s) \<and>
   (all_files s (cur s) = xs' @ e' # ys' \<and> file_desc \<notin> filedesc ` set xs' \<and> filedesc e' = file_desc \<longrightarrow>
      sys_close file_desc s =
        s\<lparr>open_file_list := remove1 e' (open_file_list s),
          all_files := (all_files s)(cur s := xs' @ ys'),
          calls := calls s @ [File_close (fde_file e'), Free (fde_addr e')]\<rparr>)"
proof -
  have a: "find_file_by_fde file_desc (s\<lparr>cur := t, all_files := af\<rparr>) = find_file_by_fde file_desc s"
    by (simp add: find_file_by_fde_def)
  have l: "find_file_by_fde file_desc (s\<lparr>file_lock := Some (cur s)\<rparr>) = find_file_by_fde file_desc s"
    by (simp add: find_file_by_fde_def)
  have b: "find_file_by_fde file_desc s = 0 \<Longrightarrow>
      sys_tell c file_desc s = (Ret (- 1), s) \<and>
      sys_filesize c file_desc s = (Ret (- 1), s) \<and>
      sys_seek c file_desc pos s = sys_exit (- 1) s \<and>
      (file_lock s = None \<and> file_desc \<noteq> STDIN_FILENO \<and> file_desc \<noteq> STDOUT_FILENO
        \<and> is_user_vaddr c buffer \<and> is_user_vaddr c (buffer + sz) \<longrightarrow>
       sys_read c file_desc buffer sz s = Some (Ret (- 1), s))"
    by (simp add: sys_tell_def sys_filesize_def sys_seek_def sys_read_def lock_acquire_def
        lock_release_def l)
  have d: "find_file_by_fde file_desc s = f \<Longrightarrow> f \<noteq> 0 \<Longrightarrow>
      sys_tell c file_desc s =
        (Ret (file_tell_r c (calls s) f), s\<lparr>calls := calls s @ [File_tell f]\<rparr>) \<and>
      sys_filesize c file_desc s =
        (Ret (file_length_r c (calls s) f), s\<lparr>calls := calls s @ [File_length f]\<rparr>) \<and>
      sys_seek c file_desc pos s = (Ret_void, s\<lparr>calls := calls s @ [File_seek f pos]\<rparr>) \<and>
      (file_lock s = None \<and> file_desc \<noteq> STDIN_FILENO \<and> file_desc \<noteq> STDOUT_FILENO
        \<and> is_user_vaddr c buffer \<and> is_user_vaddr c (buffer + sz) \<longrightarrow>
       sys_read c file_desc buffer sz s =
         Some (Ret (fst (file_read c f buffer sz s)), snd (file_read c f buffer sz s)) \<and>
       sys_write c file_desc buffer sz s =
         (Ret (fst (file_write c f buffer sz s)), snd (file_write c f buffer sz s)))" for f
    by (simp add: sys_tell_def sys_filesize_def sys_seek_def sys_read_def sys_write_def
        lock_acquire_def lock_release_def l file_tell_def file_length_def file_seek_def
        file_read_def file_write_def Let_def)
  show ?thesis
    using a b d [of "fde_file e"] find_file_by_fde_absent [of file_desc s]
      find_file_by_fde_first [of s xs e ys file_desc]
      sys_close_absent [of file_desc s] sys_close_first [of s xs' e' ys' file_desc]
    by blast
qed

theorem handle_resolution_global_witness:
  "find_file_by_fde 2 (other_owner\<lparr>cur := 2, all_files := \<lambda>_. []\<rparr>) = find_file_by_fde 2 other_owner \<and>
   find_file_by_fde 2 other_owner = 0xC0100000 \<and>
   all_files other_owner (cur other_owner) = [] \<and>
   sys_tell stub 2 other_owner =
     (Ret 0, other_owner\<lparr>calls := calls other_owner @ [File_tell 0xC0100000]\<rparr>) \<and>
   map_option fst (sys_read stub 2 0x3000 3 other_owner) = Some (Ret 3) \<and>
   fst (sys_write stub 2 0x1000 2 other_owner) = Ret 2 \<and>
   calls (snd (sys_write stub 2 0x1000 2 other_owner)) =
     [Filesys_open 0x1000, Malloc, File_write 0xC0100000 0x1000 2] \<and>
   sys_close 2 other_owner = other_owner \<and>
   find_file_by_fde 9 other_owner = 0 \<and>
   sys_tell stub 9 other_owner = (Ret (- 1), other_owner) \<and>
   sys_filesize stub 9 other_owner = (Ret (- 1), other_owner) \<and>
   fst (sys_seek stub 9 0 other_owner) = Thread_exit \<and>
   sys_read stub 9 0x3000 3 other_owner = Some (Ret (- 1), other_owner) \<and>
   map fde_file (open_file_list two_files) = [0xC0100000, 0xC0100020] \<and>
   find_file_by_fde 3 two_files = 0xC0100020 \<and>
   sys_tell stub 3 two_files = (Ret 0, two_files\<lparr>calls := calls two_files @ [File_tell 0xC0100020]\<rparr>) \<and>
   calls (snd (sys_seek stub 3 5 two_files)) = calls two_files @ [File_seek 0xC0100020 5] \<and>
   map filedesc (open_file_list (sys_close 3 two_files)) = [2] \<and>
   map filedesc (all_files (sys_close 3 two_files) 1) = [2] \<and>
   calls (sys_close 3 two_files) = calls two_files @ [File_close 0xC0100020, Free 0xC0200060]"
  using handle_resolution_global [where file_desc = 2 and s = other_owner and c = stub
      and buffer = "0x3000" and sz = 3 and pos = 0 and t = 2 and af = "\<lambda>_. []" and xs = "[]"
      and e = "\<lparr>fde_addr = 0xC0200020, filedesc = 2, fde_file = 0xC0100000\<rparr>" and ys = "[]"]
    handle_resolution_global [where file_desc = 2 and s = other_owner and c = stub
      and buffer = "0x1000" and sz = 2 and pos = 0 and t = 2 and af = "\<lambda>_. []" and xs = "[]"
      and e = "\<lparr>fde_addr = 0xC0200020, filedesc = 2, fde_file = 0xC0100000\<rparr>" and ys = "[]"]
    handle_resolution_global [where file_desc = 9 and s = other_owner and c = stub
      and buffer = "0x3000" and sz = 3 and pos = 0 and t = 2 and af = "\<lambda>_. []"]
    handle_resolution_global [where file_desc = 3 and s = two_files and c = stub
      and buffer = "0x3000" and sz = 3 and pos = 5 and t = 2 and af = "\<lambda>_. []"
      and xs = "[\<lparr>fde_addr = 0xC0200020, filedesc = 2, fde_file = 0xC0100000\<rparr>]"
      and e = "\<lparr>fde_addr = 0xC0200060, filedesc = 3, fde_file = 0xC0100020\<rparr>" and ys = "[]"
      and xs' = "[\<lparr>fde_addr = 0xC0200020, filedesc = 2, fde_file = 0xC0100000\<rparr>]"
      and e' = "\<lparr>fde_addr = 0xC0200060, filedesc = 3, fde_file = 0xC0100020\<rparr>" and ys' = "[]"]
  by (simp add: other_owner_eq two_files_eq stub_def collab_defs sys_exit_ctl)

subsection \<open>Failure paths of open\<close>

text \<open>
  Claim C5: \<^verbatim>\<open>open(path)\<close> returns -1 for a null path and leaves the state as it
  was; for a path that is not a user address the process is ended with status -1; when
  the filesystem cannot open the file the result is -1 and nothing but the call to the
  filesystem has happened, so no handle is allocated; when the allocation of the record
  fails the file just opened is closed and the result is -1, again with both lists and
  the counter as they were.
\<close>

theorem sys_open_failure_paths:
  "sys_open c 0 s = (Ret (- 1), s) \<and>
   (file \<noteq> 0 \<and> \<not> is_user_vaddr c file \<longrightarrow>
      sys_open c file s = sys_exit (- 1) s \<and> fst (sys_exit (- 1) s) = Thread_exit
      \<and> return_status (snd (sys_exit (- 1) s)) (cur s) = - 1) \<and>
   (file \<noteq> 0 \<and> is_user_vaddr c file \<and> filesys_open_r c (calls s) (mem s) file = 0 \<longrightarrow>
      sys_open c file s = (Ret (- 1), s\<lparr>calls := calls s @ [Filesys_open file]\<rparr>)) \<and>
   (file \<noteq> 0 \<and> is_user_vaddr c file \<and> filesys_open_r c (calls s) (mem s) file \<noteq> 0
      \<and> malloc_r c (calls s @ [Filesys_open file]) = 0 \<longrightarrow>
      sys_open c file s =
        (Ret (- 1),
         s\<lparr>calls := calls s @ [Filesys_open file, Malloc,
               File_close (filesys_open_r c (calls s) (mem s) file)]\<rparr>))"
  by (simp add: sys_open_def collab_defs Let_def sys_exit_ctl sys_exit_status)

theorem sys_open_failure_paths_witness:
  "fst (sys_open stub 0 two_files) = Ret (- 1) \<and>
   open_file_list (snd (sys_open stub 0 two_files)) = open_file_list two_files \<and>
   fst (sys_open stub 0xC0000000 two_files) = Thread_exit \<and>
   return_status (snd (sys_open stub 0xC0000000 two_files)) 1 = - 1 \<and>
   fst (sys_open stub 0x2000 two_files) = Ret (- 1) \<and>
   open_file_list (snd (sys_open stub 0x2000 two_files)) = open_file_list two_files \<and>
   all_files (snd (sys_open stub 0x2000 two_files)) = all_files two_files \<and>
   calls (snd (sys_open stub 0x2000 two_files)) = calls two_files @ [Filesys_open 0x2000] \<and>
   fst (sys_open stub_nomem 0x1000 two_files) = Ret (- 1) \<and>
   open_file_list (snd (sys_open stub_nomem 0x1000 two_files)) = open_file_list two_files \<and>
   all_files (snd (sys_open stub_nomem 0x1000 two_files)) = all_files two_files \<and>
   calls (snd (sys_open stub_nomem 0x1000 two_files)) =
     calls two_files @ [Filesys_open 0x1000, Malloc, File_close 0xC0100040]"
  using sys_open_failure_paths [of stub two_files 0]
    sys_open_failure_paths [of stub two_files "0xC0000000"]
    sys_open_failure_paths [of stub two_files "0x2000"]
    sys_open_failure_paths [of stub_nomem two_files "0x1000"]
  by (simp add: two_files_eq stub_nomem_def stub_def hi_mem_def is_user_vaddr_def)

subsection \<open>Exit\<close>

text \<open>
  Claim C6: \<^verbatim>\<open>exit(status)\<close> never returns to its caller (it ends in
  \<^verbatim>\<open>thread_exit\<close>); the filesystem lock is free afterwards if the exiting thread held
  it and untouched otherwise; the exiting thread's ownership set is empty and no other
  thread's set has changed; for every record the thread owned, in order, the file was
  closed and the record freed, and the record was unlinked from the global list; the
  status is stored as the thread's exit status. This holds for every state and every
  status. And every path on which the trap entry point ends the process, whatever the
  handler and its arguments, is such a call of \<open>sys_exit\<close> on the state the trap came
  in with.
\<close>

theorem sys_exit_releases_everything:
  "fst (sys_exit status s) = Thread_exit \<and>
   file_lock (snd (sys_exit status s)) = (if file_lock s = Some (cur s) then None else file_lock s) \<and>
   all_files (snd (sys_exit status s)) = (all_files s)(cur s := []) \<and>
   mset (open_file_list (snd (sys_exit status s))) = mset (open_file_list s) - mset (all_files s (cur s)) \<and>
   calls (snd (sys_exit status s)) =
     calls s @ concat (map (\<lambda>e. [File_close (fde_file e), Free (fde_addr e)]) (all_files s (cur s))) \<and>
   return_status (snd (sys_exit status s)) = (return_status s)(cur s := status) \<and>
   cur (snd (sys_exit status s)) = cur s \<and>
   (syscall_handler c nr esp s = Some (Thread_exit, s') \<longrightarrow>
      (\<exists>status'. sys_exit status' s = (Thread_exit, s')))"
proof -
  define s1 where "s1 = (if lock_held_by_current_thread s then lock_release s else s)"
  have a: "all_files s1 (cur s1) = all_files s (cur s)" "cur s1 = cur s" "calls s1 = calls s"
    "open_file_list s1 = open_file_list s" "return_status s1 = return_status s"
    "all_files s1 = all_files s"
    "file_lock s1 = (if file_lock s = Some (cur s) then None else file_lock s)"
    by (simp_all add: s1_def collab_defs)
  have "fst (sys_exit status s) = Thread_exit \<and>
   file_lock (snd (sys_exit status s)) = (if file_lock s = Some (cur s) then None else file_lock s) \<and>
   all_files (snd (sys_exit status s)) = (all_files s)(cur s := []) \<and>
   mset (open_file_list (snd (sys_exit status s))) = mset (open_file_list s) - mset (all_files s (cur s)) \<and>
   calls (snd (sys_exit status s)) =
     calls s @ concat (map (\<lambda>e. [File_close (fde_file e), Free (fde_addr e)]) (all_files s (cur s))) \<and>
   return_status (snd (sys_exit status s)) = (return_status s)(cur s := status) \<and>
   cur (snd (sys_exit status s)) = cur s"
    unfolding sys_exit_unfold s1_def [symmetric] sys_exit_loop_eq [OF refl, of s1]
    by (simp add: a mset_foldl_remove1)
  then show ?thesis
    using syscall_handler_exit_path [of c nr esp s s'] by blast
qed

theorem sys_exit_releases_everything_witness:
  "fst (sys_exit 7 two_files) = Thread_exit \<and>
   all_files (snd (sys_exit 7 two_files)) 1 = [] \<and>
   open_file_list (snd (sys_exit 7 two_files)) = [] \<and>
   calls (snd (sys_exit 7 two_files)) =
     [Filesys_open 0x1000, Malloc, Filesys_open 0x1000, Malloc,
      File_close 0xC0100000, Free 0xC0200020, File_close 0xC0100020, Free 0xC0200060] \<and>
   return_status (snd (sys_exit 7 two_files)) 1 = 7 \<and>
   syscall_handler stub stock_nr 0xC0000000 two_files = Some (sys_exit (- 1) two_files) \<and>
   (\<exists>status'. sys_exit status' two_files = (Thread_exit, snd (sys_exit (- 1) two_files)))"
proof -
  have h: "syscall_handler stub stock_nr 0xC0000000 two_files = Some (sys_exit (- 1) two_files)"
    by (simp add: syscall_handler_def stub_def is_user_vaddr_def)
  then have "syscall_handler stub stock_nr 0xC0000000 two_files =
      Some (Thread_exit, snd (sys_exit (- 1) two_files))"
    using sys_exit_ctl [of "- 1" two_files] by (metis prod.collapse)
  with h show ?thesis
    using sys_exit_releases_everything [of 7 two_files stub stock_nr "0xC0000000"
        "snd (sys_exit (- 1) two_files)"]
    by (simp add: two_files_eq)
qed

subsection \<open>Read from the console\<close>

text \<open>
  Claim C7 says that \<^verbatim>\<open>read(id, buf, size)\<close> on standard input reads exactly
  \<open>size\<close> bytes from the console into \<open>buf\<close> and returns \<open>size\<close>, for every value
  of \<open>size\<close>, and that on standard output it returns -1 without reading. The code does
  so for a size below \<open>2 ^ 16\<close>, and on standard output. For a size of \<open>2 ^ 16\<close> or
  more the 16-bit loop counter never reaches it and the handler does not return.
\<close>

theorem sys_read_console:
  "file_lock s = None \<Longrightarrow>
   (unat sz < 65536 \<longrightarrow>
      sys_read c STDIN_FILENO buffer sz s =
        Some (Ret sz,
          s\<lparr>mem := store_bytes (mem s) buffer
                    (map (input_getc_r c) [console_in s..<console_in s + unat sz]),
            console_in := console_in s + unat sz\<rparr>)) \<and>
   (65536 \<le> unat sz \<longrightarrow> sys_read c STDIN_FILENO buffer sz s = None) \<and>
   sys_read c STDOUT_FILENO buffer sz s = Some (Ret (- 1), s)"
  by (simp add: sys_read_stdin_small sys_read_stdin_large sys_read_stdout)

theorem sys_read_console_witness:
  "file_lock (boot hi_mem 1) = None \<and>
   map_option fst (sys_read stub STDIN_FILENO 0x3000 2 (boot hi_mem 1)) = Some (Ret 2) \<and>
   map_option (\<lambda>r. (mem (snd r) 0x3000, mem (snd r) 0x3001, mem (snd r) 0x3002, console_in (snd r)))
     (sys_read stub STDIN_FILENO 0x3000 2 (boot hi_mem 1)) = Some (65, 66, 0, 2) \<and>
   sys_read stub STDIN_FILENO 0x3000 0x10000 (boot hi_mem 1) = None \<and>
   map_option fst (sys_read stub STDOUT_FILENO 0x3000 2 (boot hi_mem 1)) = Some (Ret (- 1))"
  using sys_read_console [of "boot hi_mem 1" 2 stub "0x3000"]
    sys_read_console [of "boot hi_mem 1" "0x10000" stub "0x3000"]
  by (simp add: boot_def hi_mem_def stub_def upt_conv_Cons)

subsection \<open>Exec\<close>

text \<open>
  Claim C8 says that \<^verbatim>\<open>exec(cmdline)\<close> ends the calling process when
  \<open>cmdline\<close> is not a valid user address. It fails: for the kernel address
  \<open>0xC0000000\<close> the handler returns -1 to the caller and the state is as it was.
\<close>

theorem sys_exec_invalid_counterexample:
  "\<not> is_user_vaddr stub 0xC0000000 \<and>
   fst (sys_exec stub 0xC0000000 (boot hi_mem 1)) \<noteq> Thread_exit \<and>
   sys_exec stub 0xC0000000 (boot hi_mem 1) = (Ret (- 1), boot hi_mem 1)"
  by (simp add: sys_exec_def stub_def is_user_vaddr_def)

text \<open>
  Claim C8 as amended: when \<open>cmdline\<close> is null or not a valid user address,
  \<^verbatim>\<open>exec\<close> returns -1 to the caller before the command line is used, and the process
  goes on; otherwise (the lock being free) it returns what process creation returns, the
  new process identifier or -1.
\<close>

theorem sys_exec_invalid_returns:
  "(cmd = 0 \<or> \<not> is_user_vaddr c cmd \<longrightarrow> sys_exec c cmd s = (Ret (- 1), s)) \<and>
   (cmd \<noteq> 0 \<and> is_user_vaddr c cmd \<and> file_lock s = None \<longrightarrow>
      sys_exec c cmd s =
        (Ret (process_execute_r c (calls s) (mem s) cmd),
         s\<lparr>calls := calls s @ [Process_execute cmd]\<rparr>))"
  by (simp add: sys_exec_def collab_defs)

theorem sys_exec_invalid_returns_witness:
  "\<not> is_user_vaddr stub 0xC0000000 \<and>
   fst (sys_exec stub 0xC0000000 (boot hi_mem 1)) = Ret (- 1) \<and>
   calls (snd (sys_exec stub 0xC0000000 (boot hi_mem 1))) = [] \<and>
   is_user_vaddr stub 0x1000 \<and>
   fst (sys_exec stub 0x1000 (boot hi_mem 1)) = Ret 5 \<and>
   calls (snd (sys_exec stub 0x1000 (boot hi_mem 1))) = [Process_execute 0x1000]"
  using sys_exec_invalid_returns [of "0xC0000000" stub "boot hi_mem 1"]
    sys_exec_invalid_returns [of "0x1000" stub "boot hi_mem 1"]
  by (simp add: boot_def stub_def is_user_vaddr_def)

subsection \<open>The identifiers of open\<close>




subsection \<open>Write to the console\<close>

text \<open>
  Claim C10: \<^verbatim>\<open>write(id, buf, length)\<close> on standard output passes the \<open>length\<close>
  bytes at \<open>buf\<close> to the console and returns -1, the initial value of
  \<^verbatim>\<open>return_val\<close>, which that branch never assigns; nothing else changes.
\<close>

theorem sys_write_stdout:
  "file_lock s = None \<Longrightarrow>
   sys_write c STDOUT_FILENO buffer len s =
     (Ret (- 1), s\<lparr>console_out := console_out s @ load_bytes (mem s) buffer (unat len)\<rparr>)"
  by (simp add: sys_write_def collab_defs)

theorem sys_write_stdout_witness:
  "file_lock (boot hi_mem 1) = None \<and>
   fst (sys_write stub STDOUT_FILENO 0x1000 2 (boot hi_mem 1)) = Ret (- 1) \<and>
   console_out (snd (sys_write stub STDOUT_FILENO 0x1000 2 (boot hi_mem 1))) = [104, 105]"
  using sys_write_stdout [of "boot hi_mem 1" stub "0x1000" 2]
  by (simp add: boot_def hi_mem_def load_bytes_def upt_conv_Cons)

end
